theory Spec2Isabelle
  imports Complex_Main
begin

section \<open>Python strings\<close>

text \<open>
  A Python \<open>str\<close> is a sequence of Unicode code points, and \<open>len\<close> counts code points.
  The ellipsis marker of the program is U+2026, which is no 8-bit character, so a string
  is modelled as the list of its code points.
\<close>

type_synonym pystr = "nat list"

definition ustr :: "string \<Rightarrow> pystr" where
  "ustr s = map of_char s"

text \<open>\<open>x or ""\<close>: \<open>None\<close> and the empty string both give the empty string.\<close>

definition or_empty :: "pystr option \<Rightarrow> pystr" where
  "or_empty x = (case x of None \<Rightarrow> [] | Some s \<Rightarrow> s)"

text \<open>
  The characters \<open>str.strip()\<close>, \<open>str.lstrip()\<close> and \<open>str.rstrip()\<close> remove when called
  without argument: the 29 code points for which \<open>str.isspace()\<close> holds.
\<close>

definition is_space :: "nat \<Rightarrow> bool" where
  "is_space c =
     ((9 \<le> c \<and> c \<le> 13) \<or> (28 \<le> c \<and> c \<le> 32) \<or> c = 133 \<or> c = 160 \<or> c = 5760 \<or>
      (8192 \<le> c \<and> c \<le> 8202) \<or> c = 8232 \<or> c = 8233 \<or> c = 8239 \<or> c = 8287 \<or>
      c = 12288)"

definition lstrip :: "pystr \<Rightarrow> pystr" where
  "lstrip s = dropWhile is_space s"

definition rstrip :: "pystr \<Rightarrow> pystr" where
  "rstrip s = rev (dropWhile is_space (rev s))"

definition strip :: "pystr \<Rightarrow> pystr" where
  "strip s = rstrip (lstrip s)"

text \<open>\<open>s.replace(old, new)\<close> for patterns of one character.\<close>

definition replace_char :: "nat \<Rightarrow> nat \<Rightarrow> pystr \<Rightarrow> pystr" where
  "replace_char old new s = map (\<lambda>c. if c = old then new else c) s"

text \<open>The slice \<open>s[:k]\<close>; a negative \<open>k\<close> counts from the end.\<close>

definition slice_to :: "pystr \<Rightarrow> int \<Rightarrow> pystr" where
  "slice_to s k = (if k < 0 then take (nat (int (length s) + k)) s else take (nat k) s)"

definition endswith :: "pystr \<Rightarrow> pystr \<Rightarrow> bool" where
  "endswith s suffix = (length suffix \<le> length s \<and> drop (length s - length suffix) s = suffix)"

text \<open>\<open>sub in s\<close> for strings.\<close>

fun contains :: "pystr \<Rightarrow> pystr \<Rightarrow> bool" where
  "contains sub [] = (sub = [])"
| "contains sub (c # s) = (take (length sub) (c # s) = sub \<or> contains sub s)"

section \<open>Text ellipsis\<close>

definition newline :: nat where "newline = 10"
definition space :: nat where "space = 32"
definition ellipsis :: nat where "ellipsis = 8230"

text \<open>
  The first line of \<open>ellipsize\<close>: \<open>(text or "").replace("\n", " ").strip()\<close>, the
  normalized text.
\<close>

definition normalized :: "pystr option \<Rightarrow> pystr" where
  "normalized text = strip (replace_char newline space (or_empty text))"

definition ellipsize :: "pystr option \<Rightarrow> int \<Rightarrow> pystr" where
  "ellipsize text max_chars =
     (let t = normalized text in
      if int (length t) \<le> max_chars then t
      else if max_chars \<le> 1 then [ellipsis]
      else rstrip (slice_to t (max_chars - 1)) @ [ellipsis])"




section \<open>Exceptions\<close>

text \<open>
  The exceptions the modelled code and its libraries raise; all of them are subclasses of
  \<open>Exception\<close>, which is what \<open>except Exception\<close> catches. A computation that may raise
  returns \<open>exn + 'a\<close>, with \<open>Inl\<close> for the exception.
\<close>

datatype exn =
    ValueError
  | OverflowError
  | ZeroDivisionError
  | HTTPError
  | RequestException
  | UnidentifiedImageError
  | OtherException nat

definition bind_exn :: "exn + 'a \<Rightarrow> ('a \<Rightarrow> exn + 'b) \<Rightarrow> exn + 'b" where
  "bind_exn r f = (case r of Inl e \<Rightarrow> Inl e | Inr v \<Rightarrow> f v)"

section \<open>Python floats\<close>

text \<open>
  A Python \<open>float\<close> is an IEEE 754 binary64 number, and every operation returns the
  representable number nearest to the exact result, ties going to the even significand.
  A finite float is modelled as a pair \<open>(m, s)\<close> of integers that stands for \<open>m * 2 ^ s\<close>.
  The sign of zero and of infinity is not represented: \<open>fit_cover\<close> compares floats and
  converts them to integers only, and neither depends on it.
\<close>

type_synonym finite_float = "int \<times> int"

datatype pyfloat = Finite finite_float | Infinity

function bit_length :: "nat \<Rightarrow> nat" where
  "bit_length n = (if n = 0 then 0 else Suc (bit_length (n div 2)))"
  by pat_completeness auto
termination
  by (relation "measure id") auto

declare bit_length.simps [simp del]

text \<open>The integer nearest to \<open>a / b\<close> for \<open>b > 0\<close>, a tie going to the even one.\<close>

definition round_half_even_div :: "int \<Rightarrow> int \<Rightarrow> int" where
  "round_half_even_div a b =
     (let q = a div b; r = a mod b in
      if 2 * r < b then q
      else if 2 * r > b then q + 1
      else if even q then q else q + 1)"

text \<open>
  The float nearest to \<open>a / b\<close> for \<open>a > 0\<close> and \<open>b > 0\<close>. \<open>e\<close> is the exponent of the
  quotient (\<open>2 ^ e \<le> a / b < 2 ^ (e + 1)\<close>); a significand has 53 bits, and the exponent
  of a subnormal number is \<open>-1022\<close>. The result can be too large for a float: see
  \<open>overflows\<close>.
\<close>

definition round_pos :: "int \<Rightarrow> int \<Rightarrow> finite_float" where
  "round_pos a b =
     (let d = int (bit_length (nat a)) - int (bit_length (nat b));
          e = (if a * 2 ^ nat (- d) \<ge> b * 2 ^ nat d then d else d - 1);
          s = max e (- 1022) - 52
      in (round_half_even_div (a * 2 ^ nat (- s)) (b * 2 ^ nat s), s))"

definition round_ratio :: "int \<Rightarrow> int \<Rightarrow> finite_float" where
  "round_ratio a b =
     (if a = 0 then (0, 0)
      else if a < 0 then (let (m, s) = round_pos (- a) b in (- m, s))
      else round_pos a b)"

text \<open>The magnitude is \<open>2 ^ 1024\<close> or more: beyond the largest float.\<close>

definition overflows :: "finite_float \<Rightarrow> bool" where
  "overflows x = (case x of (m, s) \<Rightarrow> \<bar>m\<bar> * 2 ^ nat s \<ge> 2 ^ (1024 + nat (- s)))"

text \<open>\<open>a / b\<close> on integers: the correctly rounded quotient, or an exception.\<close>

definition truediv :: "int \<Rightarrow> int \<Rightarrow> exn + finite_float" where
  "truediv a b =
     (if b = 0 then Inl ZeroDivisionError
      else let x = (if b < 0 then round_ratio (- a) (- b) else round_ratio a b)
           in if overflows x then Inl OverflowError else Inr x)"

text \<open>The conversion of an integer operand of a float operation.\<close>

definition float_of_int :: "int \<Rightarrow> exn + finite_float" where
  "float_of_int i = (let x = round_ratio i 1 in if overflows x then Inl OverflowError else Inr x)"

text \<open>The product of two finite floats; it is infinite when the rounded product overflows.\<close>

definition float_mul :: "finite_float \<Rightarrow> finite_float \<Rightarrow> pyfloat" where
  "float_mul x y =
     (case x of (m1, s1) \<Rightarrow> case y of (m2, s2) \<Rightarrow>
        let s = s1 + s2; r = round_ratio (m1 * m2 * 2 ^ nat s) (2 ^ nat (- s))
        in if overflows r then Infinity else Finite r)"

text \<open>\<open>x \<le> y\<close> on finite floats.\<close>

definition float_le :: "finite_float \<Rightarrow> finite_float \<Rightarrow> bool" where
  "float_le x y =
     (case x of (m1, s1) \<Rightarrow> case y of (m2, s2) \<Rightarrow>
        m1 * 2 ^ nat (s1 - min s1 s2) \<le> m2 * 2 ^ nat (s2 - min s1 s2))"

text \<open>\<open>max(x, y)\<close>: the second argument only when it is greater than the first.\<close>

definition float_max :: "finite_float \<Rightarrow> finite_float \<Rightarrow> finite_float" where
  "float_max x y = (if float_le y x then x else y)"

text \<open>\<open>int(x)\<close>: truncation towards zero; an infinite float raises \<open>OverflowError\<close>.\<close>

definition int_of_float :: "pyfloat \<Rightarrow> exn + int" where
  "int_of_float x =
     (case x of
        Infinity \<Rightarrow> Inl OverflowError
      | Finite (m, s) \<Rightarrow>
          Inr (if 0 \<le> s then m * 2 ^ nat s
               else if 0 \<le> m then m div 2 ^ nat (- s)
               else - ((- m) div 2 ^ nat (- s))))"

text \<open>\<open>int(i * x)\<close> for an integer \<open>i\<close> and a float \<open>x\<close>.\<close>

definition int_of_product :: "int \<Rightarrow> finite_float \<Rightarrow> exn + int" where
  "int_of_product i x = bind_exn (float_of_int i) (\<lambda>f. int_of_float (float_mul f x))"

section \<open>Image fitting\<close>

text \<open>
  A decoded image (\<open>PIL.Image.Image\<close>), reduced to its size; \<open>img.size\<close> is the pair of
  \<open>width\<close> and \<open>height\<close>. The pixels play no part in the properties below.
\<close>

record bitmap =
  width :: int
  height :: int

text \<open>
  The two Pillow operations \<open>fit_cover\<close> calls, as far as sizes go. \<open>Image.resize\<close> returns
  a copy of the image when the requested size is the size it has; otherwise it hands the
  size to its C core as two C integers, which raises \<open>OverflowError\<close> for a side outside
  the range of a 32-bit signed integer, rejects a side below one pixel with \<open>ValueError\<close>,
  and returns an image of the requested size. \<open>Image.crop\<close> returns an image of the size
  of the box, whether or not the box lies inside the image, and rejects a box whose right
  or lower edge is before the left or upper one. Limits of memory are not modelled.
\<close>

definition c_int :: "int \<Rightarrow> bool" where
  "c_int i = (- (2 ^ 31) \<le> i \<and> i < 2 ^ 31)"

definition resize :: "bitmap \<Rightarrow> int \<times> int \<Rightarrow> exn + bitmap" where
  "resize img sz =
     (case sz of (nw, nh) \<Rightarrow>
        if nw = width img \<and> nh = height img then Inr img
        else if \<not> c_int nw \<or> \<not> c_int nh then Inl OverflowError
        else if nw < 1 \<or> nh < 1 then Inl ValueError
        else Inr \<lparr>width = nw, height = nh\<rparr>)"

definition crop :: "bitmap \<Rightarrow> int \<times> int \<times> int \<times> int \<Rightarrow> exn + bitmap" where
  "crop img box =
     (case box of (left, upper, right, lower) \<Rightarrow>
        if right < left \<or> lower < upper then Inl ValueError
        else Inr \<lparr>width = right - left, height = lower - upper\<rparr>)"

text \<open>
  The scale step of \<open>fit_cover\<close>:
  \<^verbatim>\<open>scale = max(target_w / iw, target_h / ih)\<close>,
  \<^verbatim>\<open>nw, nh = int(iw * scale), int(ih * scale)\<close>.
\<close>

definition scaled_size :: "int \<Rightarrow> int \<Rightarrow> int \<Rightarrow> int \<Rightarrow> exn + int \<times> int" where
  "scaled_size iw ih target_w target_h =
     bind_exn (truediv target_w iw) (\<lambda>sw.
     bind_exn (truediv target_h ih) (\<lambda>sh.
       let scale = float_max sw sh in
       bind_exn (int_of_product iw scale) (\<lambda>nw.
       bind_exn (int_of_product ih scale) (\<lambda>nh. Inr (nw, nh)))))"

definition fit_cover :: "bitmap option \<Rightarrow> int \<Rightarrow> int \<Rightarrow> exn + bitmap option" where
  "fit_cover img target_w target_h =
     (case img of
        None \<Rightarrow> Inr None
      | Some im \<Rightarrow>
          let iw = width im; ih = height im in
          if iw \<le> 0 \<or> ih \<le> 0 then Inr None
          else
            bind_exn (scaled_size iw ih target_w target_h) (\<lambda>(nw, nh).
            bind_exn (resize im (nw, nh)) (\<lambda>resized.
              let left = max 0 ((nw - target_w) div 2);
                  top = max 0 ((nh - target_h) div 2)
              in bind_exn (crop resized (left, top, left + target_w, top + target_h))
                   (\<lambda>r. Inr (Some r)))))"

section \<open>Recognising SVG responses\<close>

text \<open>
  \<open>str.lower()\<close>. On a string of ASCII characters it replaces \<open>A\<close> to \<open>Z\<close> by \<open>a\<close> to \<open>z\<close>;
  on any other string it follows the Unicode case mapping, which is a parameter here.
\<close>

definition ascii_lower :: "nat \<Rightarrow> nat" where
  "ascii_lower c = (if 65 \<le> c \<and> c \<le> 90 then c + 32 else c)"

definition lower :: "(pystr \<Rightarrow> pystr) \<Rightarrow> pystr \<Rightarrow> pystr" where
  "lower unicode_lower s =
     (if list_all (\<lambda>c. c < 128) s then map ascii_lower s else unicode_lower s)"

text \<open>
  \<open>_looks_like_svg(url, content_type)\<close>. \<open>urlparse_path url\<close> stands for
  \<open>urlparse(url).path\<close>, which can raise; the exception is caught and the check skipped.
\<close>

definition looks_like_svg ::
  "(pystr \<Rightarrow> pystr) \<Rightarrow> (pystr \<Rightarrow> exn + pystr) \<Rightarrow> pystr \<Rightarrow> pystr option \<Rightarrow> bool" where
  "looks_like_svg unicode_lower urlparse_path url content_type =
     (let u = lower unicode_lower url in
      if (case content_type of
            None \<Rightarrow> False
          | Some ct \<Rightarrow> ct \<noteq> [] \<and> contains (ustr ''svg'') (lower unicode_lower ct))
      then True
      else if endswith u (ustr ''.svg'') then True
      else (case urlparse_path url of
              Inl e \<Rightarrow> False
            | Inr p \<Rightarrow> endswith (lower unicode_lower p) (ustr ''.svg'')))"

text \<open>
  The classification as the specification words it: vector when the declared content type
  contains \<open>svg\<close> or the path component of the URL ends in \<open>.svg\<close>, case-insensitively;
  raster otherwise.
\<close>

definition spec_is_vector ::
  "(pystr \<Rightarrow> pystr) \<Rightarrow> (pystr \<Rightarrow> exn + pystr) \<Rightarrow> pystr \<Rightarrow> pystr option \<Rightarrow> bool" where
  "spec_is_vector unicode_lower urlparse_path url content_type =
     ((case content_type of
         None \<Rightarrow> False
       | Some ct \<Rightarrow> contains (ustr ''svg'') (lower unicode_lower ct)) \<or>
      (case urlparse_path url of
         Inl e \<Rightarrow> False
       | Inr p \<Rightarrow> endswith (lower unicode_lower p) (ustr ''.svg'')))"

subsection \<open>The path component of a URL\<close>

text \<open>
  \<open>urllib.parse.urlparse(url).path\<close> of the Python standard library (3.11):
  leading control characters and spaces are dropped, tabs and line breaks removed, then
  the scheme, the network location, the fragment, the query and the parameters of the
  last path segment are split off. A network location with unbalanced brackets raises
  \<open>ValueError\<close>. The library validates a bracketed host and a non-ASCII network location
  further; that validation is the parameter \<open>netloc_ok\<close>, consulted for such network
  locations only.
\<close>

definition scheme_char :: "nat \<Rightarrow> bool" where
  "scheme_char c =
     ((97 \<le> c \<and> c \<le> 122) \<or> (65 \<le> c \<and> c \<le> 90) \<or> (48 \<le> c \<and> c \<le> 57) \<or>
      c = 43 \<or> c = 45 \<or> c = 46)"

definition ascii_alpha :: "nat \<Rightarrow> bool" where
  "ascii_alpha c = ((97 \<le> c \<and> c \<le> 122) \<or> (65 \<le> c \<and> c \<le> 90))"

definition uses_params :: "pystr list" where
  "uses_params =
     map ustr ['''', ''ftp'', ''hdl'', ''prospero'', ''http'', ''imap'', ''https'', ''shttp'',
       ''rtsp'', ''rtsps'', ''rtspu'', ''sip'', ''sips'', ''mms'', ''sftp'', ''tel'']"

text \<open>The scheme and the rest of the URL; the scheme is empty when there is none.\<close>

definition split_scheme :: "pystr \<Rightarrow> pystr \<times> pystr" where
  "split_scheme url =
     (let pre = takeWhile (\<lambda>c. c \<noteq> 58) url in
      if 58 \<in> set url \<and> pre \<noteq> [] \<and> ascii_alpha (hd url) \<and> list_all scheme_char pre
      then (map ascii_lower pre, drop (length pre + 1) url)
      else ([], url))"

definition netloc_end :: "nat \<Rightarrow> bool" where
  "netloc_end c = (c = 47 \<or> c = 63 \<or> c = 35)"

text \<open>\<open>_splitparams\<close>: the path without the parameters of its last segment.\<close>

definition strip_params :: "pystr \<Rightarrow> pystr" where
  "strip_params path =
     (if 47 \<in> set path
      then (let k = length path - 1 - length (takeWhile (\<lambda>c. c \<noteq> 47) (rev path));
                tail = drop k path
            in if 59 \<in> set tail then take (k + length (takeWhile (\<lambda>c. c \<noteq> 59) tail)) path
               else path)
      else takeWhile (\<lambda>c. c \<noteq> 59) path)"

definition urlparse_path :: "(pystr \<Rightarrow> bool) \<Rightarrow> pystr \<Rightarrow> exn + pystr" where
  "urlparse_path netloc_ok url0 =
     (let url1 = filter (\<lambda>c. c \<noteq> 9 \<and> c \<noteq> 13 \<and> c \<noteq> 10) (dropWhile (\<lambda>c. c \<le> 32) url0);
          (scheme, url2) = split_scheme url1;
          slashes = (take 2 url2 = [47, 47]);
          netloc = (if slashes then takeWhile (\<lambda>c. \<not> netloc_end c) (drop 2 url2) else []);
          url3 = (if slashes then dropWhile (\<lambda>c. \<not> netloc_end c) (drop 2 url2) else url2)
      in if (91 \<in> set netloc) \<noteq> (93 \<in> set netloc) then Inl ValueError
         else if ((91 \<in> set netloc \<and> 93 \<in> set netloc) \<or> \<not> list_all (\<lambda>c. c < 128) netloc)
                 \<and> \<not> netloc_ok netloc
         then Inl ValueError
         else
           let path = takeWhile (\<lambda>c. c \<noteq> 63) (takeWhile (\<lambda>c. c \<noteq> 35) url3)
           in Inr (if scheme \<in> set uses_params \<and> 59 \<in> set path then strip_params path
                   else path))"

section \<open>Fetching an image\<close>

text \<open>
  What \<open>fetch_image\<close> calls and does not define: the HTTP client, the SVG rasterizer, the
  image decoder, and the two library functions of the previous section. They are the
  fields of an environment, each returning a value or the exception it raises.
  \<open>cairosvg\<close> is \<open>None\<close> when the module could not be imported.
  \<open>image_open_rgb b\<close> stands for \<open>Image.open(io.BytesIO(b)).convert("RGB")\<close>.
\<close>

record response =
  status_code :: int
  content_type_header :: "pystr option"
  content :: "nat list"

record 't env =
  unicode_lower :: "pystr \<Rightarrow> pystr"
  url_path :: "pystr \<Rightarrow> exn + pystr"
  http_get :: "pystr \<Rightarrow> 't \<Rightarrow> exn + response"
  cairosvg :: "(nat list \<Rightarrow> int \<Rightarrow> exn + nat list) option"
  image_open_rgb :: "nat list \<Rightarrow> exn + bitmap"

text \<open>The calls to the outside, in the order they are made.\<close>

datatype event = HttpGet pystr | Svg2Png "nat list" | ImageOpen "nat list"

text \<open>\<open>resp.raise_for_status()\<close>: a status from 400 to 599 raises \<open>HTTPError\<close>.\<close>

definition raise_for_status :: "response \<Rightarrow> exn + unit" where
  "raise_for_status resp =
     (if 400 \<le> status_code resp \<and> status_code resp < 600 then Inl HTTPError else Inr ())"

text \<open>
  The SVG branch of \<open>fetch_image\<close>, entered when the response looks like SVG: without
  rasterizer it returns \<open>None\<close>; an exception of the rasterizer or of the decoding of its
  PNG output is caught by the inner \<open>except Exception\<close> and gives \<open>None\<close>.
\<close>

definition fetch_svg :: "'t env \<Rightarrow> nat list \<Rightarrow> (exn + bitmap option) \<times> event list" where
  "fetch_svg env data =
     (case cairosvg env of
        None \<Rightarrow> (Inr None, [])
      | Some svg2png \<Rightarrow>
          (case svg2png data 1200 of
             Inl e \<Rightarrow> (Inr None, [Svg2Png data])
           | Inr png_bytes \<Rightarrow>
               (case image_open_rgb env png_bytes of
                  Inl e \<Rightarrow> (Inr None, [Svg2Png data, ImageOpen png_bytes])
                | Inr img \<Rightarrow> (Inr (Some img), [Svg2Png data, ImageOpen png_bytes]))))"

text \<open>The body of the outer \<open>try\<close> of \<open>fetch_image\<close>; \<open>Inl\<close> is an exception that leaves it.\<close>

definition fetch_body :: "'t env \<Rightarrow> pystr \<Rightarrow> 't \<Rightarrow> (exn + bitmap option) \<times> event list" where
  "fetch_body env url timeout =
     (case http_get env url timeout of
        Inl e \<Rightarrow> (Inl e, [HttpGet url])
      | Inr resp \<Rightarrow>
          (case raise_for_status resp of
             Inl e \<Rightarrow> (Inl e, [HttpGet url])
           | Inr _ \<Rightarrow>
               let ctype = or_empty (content_type_header resp);
                   data = content resp
               in if looks_like_svg (unicode_lower env) (url_path env) url (Some ctype)
                  then (case fetch_svg env data of (r, evs) \<Rightarrow> (r, HttpGet url # evs))
                  else (case image_open_rgb env data of
                          Inl e \<Rightarrow> (Inl e, [HttpGet url, ImageOpen data])
                        | Inr img \<Rightarrow> (Inr (Some img), [HttpGet url, ImageOpen data]))))"

text \<open>
  \<open>fetch_image(url, timeout)\<close>: the result, or the exception that reaches the caller, and
  the calls made.
\<close>

definition fetch_image ::
  "'t env \<Rightarrow> pystr option \<Rightarrow> 't \<Rightarrow> (exn + bitmap option) \<times> event list" where
  "fetch_image env url timeout =
     (let u = strip (or_empty url) in
      if u = [] then (Inr None, [])
      else (case fetch_body env u timeout of
              (Inl e, evs) \<Rightarrow> (Inr None, evs)
            | (Inr r, evs) \<Rightarrow> (Inr r, evs)))"

definition is_http_get :: "event \<Rightarrow> bool" where
  "is_http_get ev = (case ev of HttpGet u \<Rightarrow> True | _ \<Rightarrow> False)"

definition is_image_open :: "event \<Rightarrow> bool" where
  "is_image_open ev = (case ev of ImageOpen b \<Rightarrow> True | _ \<Rightarrow> False)"

section \<open>Example inputs\<close>

text \<open>A validation of network locations that accepts all of them.\<close>

definition netloc_unchecked :: "pystr \<Rightarrow> bool" where
  "netloc_unchecked netloc = True"



text \<open>
  An environment without SVG rasterizer, whose HTTP client answers every request with an
  SVG document and whose decoder rejects whatever it is given.
\<close>

definition svg_response :: response where
  "svg_response =
     \<lparr>status_code = 200, content_type_header = Some (ustr ''image/svg+xml''),
      content = ustr ''<svg/>''\<rparr>"

definition env_without_rasterizer :: "int env" where
  "env_without_rasterizer =
     \<lparr>unicode_lower = id, url_path = urlparse_path netloc_unchecked,
      http_get = (\<lambda>url timeout. Inr svg_response), cairosvg = None,
      image_open_rgb = (\<lambda>b. Inl UnidentifiedImageError)\<rparr>"

section \<open>Properties of the string operations\<close>

lemma length_rstrip_le: "length (rstrip s) \<le> length s"
  using length_dropWhile_le [of is_space "rev s"] by (simp add: rstrip_def)

lemma set_rstrip_subset: "set (rstrip s) \<subseteq> set s"
  using set_dropWhileD [of _ is_space "rev s"] by (auto simp: rstrip_def)

lemma set_lstrip_subset: "set (lstrip s) \<subseteq> set s"
  using set_dropWhileD [of _ is_space s] by (auto simp: lstrip_def)

lemma set_strip_subset: "set (strip s) \<subseteq> set s"
  using set_rstrip_subset [of "lstrip s"] set_lstrip_subset [of s] by (auto simp: strip_def)

lemma newline_notin_replace: "newline \<notin> set (replace_char newline space s)"
  by (auto simp: replace_char_def newline_def space_def)

lemma newline_notin_normalized: "newline \<notin> set (normalized tx)"
  using set_strip_subset [of "replace_char newline space (or_empty tx)"]
    newline_notin_replace [of "or_empty tx"]
  by (auto simp: normalized_def)

lemma set_slice_to_subset: "set (slice_to s k) \<subseteq> set s"
  by (auto simp: slice_to_def dest: in_set_takeD)

lemma length_slice_to: "0 \<le> k \<Longrightarrow> length (slice_to s k) \<le> nat k"
  by (simp add: slice_to_def)

lemma newline_notin_ellipsize: "newline \<notin> set (ellipsize tx n)"
proof -
  note t = newline_notin_normalized [of tx]
  have "newline \<notin> set (rstrip (slice_to (normalized tx) (n - 1)))"
    using t set_rstrip_subset [of "slice_to (normalized tx) (n - 1)"]
      set_slice_to_subset [of "normalized tx" "n - 1"] by auto
  with t show ?thesis
    by (simp add: ellipsize_def Let_def ellipsis_def newline_def)
qed




lemma length_ellipsize_le: "0 < n \<Longrightarrow> int (length (ellipsize tx n)) \<le> n"
proof -
  assume n: "0 < n"
  have "length (rstrip (slice_to (normalized tx) (n - 1))) \<le> nat (n - 1)"
    using length_rstrip_le [of "slice_to (normalized tx) (n - 1)"]
      length_slice_to [of "n - 1" "normalized tx"] n by linarith
  with n show ?thesis
    by (auto simp: ellipsize_def Let_def)
qed

lemma rstrip_prefix: "rstrip s @ rev (takeWhile is_space (rev s)) = s"
proof -
  have "rev (takeWhile is_space (rev s) @ dropWhile is_space (rev s)) = s"
    by simp
  then show ?thesis
    by (simp only: rev_append rstrip_def)
qed

lemma lstrip_id: "s = [] \<or> \<not> is_space (hd s) \<Longrightarrow> lstrip s = s"
  by (cases s) (auto simp: lstrip_def)

lemma rstrip_id: "s = [] \<or> \<not> is_space (last s) \<Longrightarrow> rstrip s = s"
  by (cases s rule: rev_cases) (auto simp: rstrip_def)

lemma rstrip_changes: "s \<noteq> [] \<Longrightarrow> is_space (last s) \<Longrightarrow> length (rstrip s) < length s"
proof (cases s rule: rev_cases)
  case Nil
  assume "s \<noteq> []"
  with Nil show ?thesis by simp
next
  case (snoc ys y)
  assume "is_space (last s)"
  with snoc have "rstrip s = rstrip ys"
    by (simp add: rstrip_def)
  with snoc length_rstrip_le [of ys] show ?thesis by simp
qed

lemma hd_lstrip: "lstrip s \<noteq> [] \<Longrightarrow> \<not> is_space (hd (lstrip s))"
  by (simp add: lstrip_def hd_dropWhile)

lemma last_rstrip: "rstrip s \<noteq> [] \<Longrightarrow> \<not> is_space (last (rstrip s))"
  using hd_dropWhile [of is_space "rev s"] by (simp add: rstrip_def last_rev)

lemma rstrip_nonempty: "s \<noteq> [] \<Longrightarrow> \<not> is_space (hd s) \<Longrightarrow> rstrip s \<noteq> []"
proof
  assume s: "s \<noteq> []" and h: "\<not> is_space (hd s)" and e: "rstrip s = []"
  from e rstrip_prefix [of s] have "s = rev (takeWhile is_space (rev s))" by simp
  then have "set s = set (takeWhile is_space (rev s))" by (metis set_rev)
  then have "\<forall>c \<in> set s. is_space c"
    using set_takeWhileD [of _ is_space "rev s"] by blast
  with s h show False by (cases s) auto
qed

lemma hd_rstrip: "rstrip s \<noteq> [] \<Longrightarrow> hd (rstrip s) = hd s"
  using rstrip_prefix [of s] by (metis hd_append2)

lemma strip_fixed:
  "s = [] \<or> (\<not> is_space (hd s) \<and> \<not> is_space (last s)) \<Longrightarrow> strip s = s"
  by (auto simp: strip_def lstrip_id rstrip_id)

lemma strip_shape: "strip s = [] \<or> (\<not> is_space (hd (strip s)) \<and> \<not> is_space (last (strip s)))"
proof (cases "strip s = []")
  case True
  then show ?thesis by simp
next
  case False
  then have r: "rstrip (lstrip s) \<noteq> []" by (simp add: strip_def)
  then have l: "lstrip s \<noteq> []" by (auto simp: rstrip_def)
  from r have "hd (strip s) = hd (lstrip s)" by (simp add: strip_def hd_rstrip)
  with hd_lstrip [OF l] last_rstrip [OF r] show ?thesis by (simp add: strip_def)
qed

lemma replace_char_absent: "old \<notin> set s \<Longrightarrow> replace_char old new s = s"
  by (induction s) (auto simp: replace_char_def)

lemma normalized_fixed:
  "newline \<notin> set r \<Longrightarrow> r = [] \<or> (\<not> is_space (hd r) \<and> \<not> is_space (last r)) \<Longrightarrow>
     normalized (Some r) = r"
  by (simp add: normalized_def or_empty_def replace_char_absent strip_fixed)

lemma normalized_shape:
  "normalized tx = [] \<or> (\<not> is_space (hd (normalized tx)) \<and> \<not> is_space (last (normalized tx)))"
  using strip_shape [of "replace_char newline space (or_empty tx)"] by (simp add: normalized_def)



lemma ellipsize_fixed:
  "newline \<notin> set r \<Longrightarrow> r = [] \<or> (\<not> is_space (hd r) \<and> \<not> is_space (last r)) \<Longrightarrow>
     int (length r) \<le> n \<Longrightarrow> ellipsize (Some r) n = r"
  by (simp add: ellipsize_def normalized_fixed)

lemma ellipsis_no_space: "\<not> is_space ellipsis"
  by (simp add: is_space_def ellipsis_def)

lemma ellipsize_shape:
  "ellipsize tx n = [] \<or> (\<not> is_space (hd (ellipsize tx n)) \<and> \<not> is_space (last (ellipsize tx n)))"
proof -
  let ?t = "normalized tx"
  let ?p = "slice_to ?t (n - 1)"
  show ?thesis
  proof (cases "int (length ?t) \<le> n")
    case True
    then show ?thesis using normalized_shape [of tx] by (simp add: ellipsize_def)
  next
    case long: False
    show ?thesis
    proof (cases "n \<le> 1")
      case True
      with long show ?thesis by (simp add: ellipsize_def ellipsis_no_space)
    next
      case False
      with long have t: "?t \<noteq> []" by auto
      with normalized_shape [of tx] have h: "\<not> is_space (hd ?t)" by simp
      from False t have p: "?p \<noteq> []" "hd ?p = hd ?t"
        by (auto simp: slice_to_def)
      with h have r: "rstrip ?p \<noteq> []" by (simp add: rstrip_nonempty)
      with p h have "\<not> is_space (hd (rstrip ?p))" by (simp add: hd_rstrip)
      with r long False show ?thesis
        by (simp add: ellipsize_def ellipsis_no_space)
    qed
  qed
qed

lemma endswith_snoc: "endswith (s @ [c]) [c]"
  by (simp add: endswith_def)

lemma rstrip_length_eq: "s \<noteq> [] \<Longrightarrow> (length (rstrip s) = length s) = (\<not> is_space (last s))"
  using rstrip_changes [of s] rstrip_id [of s] by fastforce

lemma strip_all_space: "list_all is_space s \<Longrightarrow> strip s = []"
proof -
  assume "list_all is_space s"
  then have "dropWhile is_space s = []"
    by (induction s) simp_all
  then have "lstrip s = []"
    by (simp only: lstrip_def)
  then show ?thesis
    by (simp add: strip_def rstrip_def)
qed

lemma ustr_Nil: "ustr [] = []"
  by (simp add: ustr_def)

lemma ustr_Cons: "ustr (c # cs) = of_char c # ustr cs"
  by (simp add: ustr_def)

lemmas string_defs = normalized_def strip_def lstrip_def rstrip_def replace_char_def or_empty_def
  is_space_def slice_to_def newline_def space_def ustr_Nil ustr_Cons

lemma normalized_hello_world:
  "normalized (Some (ustr ''hello world'')) = ustr ''hello world''"
  by (simp add: string_defs)

lemma ellipsize_hello_world:
  "ellipsize (Some (ustr ''hello world'')) 7 = ustr ''hello'' @ [ellipsis]"
  by (simp add: ellipsize_def string_defs)



section \<open>Properties of the text ellipsis\<close>




text \<open>
  The second part of C2 (a truncated result has length exactly the maximum length) does
  not hold: the text \<open>hello world\<close> is longer than 7, the first 6 characters end in a
  space, which \<open>rstrip\<close> removes, and the result \<open>hello\<close> with the marker has length 6.
\<close>

theorem ellipsize_length_counterexample:
  "7 < int (length (normalized (Some (ustr ''hello world'')))) \<and>
   int (length (ellipsize (Some (ustr ''hello world'')) 7)) \<noteq> 7"
  unfolding normalized_hello_world ellipsize_hello_world
  by (simp add: ustr_Nil ustr_Cons)

text \<open>
  C2, amended. For every text and every maximum length \<open>n \<ge> 1\<close> such that the normalized
  text is longer than \<open>n\<close>, the result ends with the ellipsis marker and has length at
  most \<open>n\<close>; its length is exactly \<open>n\<close> if and only if \<open>n = 1\<close> or the last character kept,
  the one at index \<open>n - 2\<close> of the normalized text, is not whitespace.
\<close>

theorem ellipsize_truncated:
  "1 \<le> n \<Longrightarrow> n < int (length (normalized tx)) \<Longrightarrow>
     endswith (ellipsize tx n) [ellipsis] \<and> int (length (ellipsize tx n)) \<le> n \<and>
     (int (length (ellipsize tx n)) = n) = (n = 1 \<or> \<not> is_space (normalized tx ! nat (n - 2)))"
proof -
  assume n: "1 \<le> n" and long: "n < int (length (normalized tx))"
  let ?t = "normalized tx"
  let ?p = "slice_to ?t (n - 1)"
  show ?thesis
  proof (cases "n = 1")
    case True
    with long show ?thesis by (simp add: ellipsize_def endswith_def)
  next
    case False
    with n have n2: "2 \<le> n" by simp
    with long have p: "?p = take (nat (n - 1)) ?t" "length ?p = nat (n - 1)" "?p \<noteq> []"
      by (auto simp: slice_to_def)
    have "last ?p = ?p ! (length ?p - 1)"
      using p(3) by (rule last_conv_nth)
    also have "\<dots> = ?t ! (nat (n - 1) - 1)"
      using p n2 by simp
    also have "nat (n - 1) - 1 = nat (n - 2)"
      using n2 by simp
    finally have l: "last ?p = ?t ! nat (n - 2)" .
    have e: "ellipsize tx n = rstrip ?p @ [ellipsis]"
      using n2 long by (simp add: ellipsize_def)
    have "(length (rstrip ?p) = length ?p) = (\<not> is_space (?t ! nat (n - 2)))"
      using rstrip_length_eq [OF p(3)] l by simp
    then have "(1 + int (length (rstrip ?p)) = n) = (\<not> is_space (?t ! nat (n - 2)))"
      using p(2) n2 by auto
    with e False n show ?thesis
      using length_ellipsize_le [of n tx] by (simp add: endswith_snoc)
  qed
qed

theorem ellipsize_truncated_witness:
  "(1::int) \<le> 7 \<and> 7 < int (length (normalized (Some (ustr ''hello world'')))) \<and>
   endswith (ellipsize (Some (ustr ''hello world'')) 7) [ellipsis] \<and>
   int (length (ellipsize (Some (ustr ''hello world'')) 7)) \<le> 7 \<and>
   (int (length (ellipsize (Some (ustr ''hello world'')) 7)) = 7) =
     ((7::int) = 1 \<or> \<not> is_space (normalized (Some (ustr ''hello world'')) ! nat (7 - 2)))"
  using ellipsize_truncated [of 7 "Some (ustr ''hello world'')"]
  unfolding normalized_hello_world ellipsize_hello_world
  by (simp add: ustr_Nil ustr_Cons)

text \<open>
  C10. \<open>ellipsize\<close> is idempotent: for every text and every maximum length \<open>n \<ge> 1\<close>,
  applying it to its own result with the same maximum length gives that result again.
\<close>

theorem ellipsize_idempotent:
  "1 \<le> n \<Longrightarrow> ellipsize (Some (ellipsize tx n)) n = ellipsize tx n"
proof -
  assume n: "1 \<le> n"
  note newline_notin_ellipsize [of tx n]
  moreover note ellipsize_shape [of tx n]
  moreover have "int (length (ellipsize tx n)) \<le> n"
    using n length_ellipsize_le [of n tx] by simp
  ultimately show ?thesis
    by (rule ellipsize_fixed)
qed

theorem ellipsize_idempotent_witness:
  "(1::int) \<le> 7 \<and>
   ellipsize (Some (ellipsize (Some (ustr ''hello world'')) 7)) 7 =
     ellipsize (Some (ustr ''hello world'')) 7"
  using ellipsize_idempotent [of 7 "Some (ustr ''hello world'')"] by simp

section \<open>Properties of the image fitting\<close>

text \<open>
  Floating-point results are evaluated one operation at a time: first the rounded
  quotients, then the scale, then each rounded product and its truncation.
\<close>

lemmas round_defs = round_ratio_def round_pos_def bit_length.simps round_half_even_div_def Let_def

lemma round_78x39_w:
  "round_ratio 360 78 = (5196461108504418, - 50)"
  by (simp add: round_defs)

lemma round_78x39_h:
  "round_ratio 180 39 = (5196461108504418, - 50)"
  by (simp add: round_defs)

lemma truediv_78x39_w:
  "truediv 360 78 = Inr (5196461108504418, - 50)"
  by (simp add: truediv_def round_78x39_w overflows_def)

lemma truediv_78x39_h:
  "truediv 180 39 = Inr (5196461108504418, - 50)"
  by (simp add: truediv_def round_78x39_h overflows_def)

lemma scale_78x39:
  "float_max (5196461108504418, - 50) (5196461108504418, - 50) = (5196461108504418, - 50)"
  by (simp add: float_max_def float_le_def)

lemma float_of_int_78x39_w:
  "float_of_int 78 = Inr (5488762045857792, - 46)"
  by (simp add: float_of_int_def round_defs overflows_def)

lemma round_78x39_product_w:
  "round_ratio 28522138505135159000401031725056 79228162514264337593543950336 = (6333186975989759, - 44)"
  by (simp add: round_defs)

lemma float_mul_78x39_w:
  "float_mul (5488762045857792, - 46) (5196461108504418, - 50) = Finite (6333186975989759, - 44)"
  by (simp add: float_mul_def round_78x39_product_w overflows_def)

lemma int_of_product_78x39_w:
  "int_of_product 78 (5196461108504418, - 50) = Inr 359"
  by (simp add: int_of_product_def bind_exn_def float_of_int_78x39_w float_mul_78x39_w int_of_float_def)

lemma float_of_int_78x39_h:
  "float_of_int 39 = Inr (5488762045857792, - 47)"
  by (simp add: float_of_int_def round_defs overflows_def)

lemma round_78x39_product_h:
  "round_ratio 28522138505135159000401031725056 158456325028528675187087900672 = (6333186975989759, - 45)"
  by (simp add: round_defs)

lemma float_mul_78x39_h:
  "float_mul (5488762045857792, - 47) (5196461108504418, - 50) = Finite (6333186975989759, - 45)"
  by (simp add: float_mul_def round_78x39_product_h overflows_def)

lemma int_of_product_78x39_h:
  "int_of_product 39 (5196461108504418, - 50) = Inr 179"
  by (simp add: int_of_product_def bind_exn_def float_of_int_78x39_h float_mul_78x39_h int_of_float_def)

lemma round_49x49_w:
  "round_ratio 1 49 = (5882252574524729, - 58)"
  by (simp add: round_defs)

lemma truediv_49x49_w:
  "truediv 1 49 = Inr (5882252574524729, - 58)"
  by (simp add: truediv_def round_49x49_w overflows_def)

lemma scale_49x49:
  "float_max (5882252574524729, - 58) (5882252574524729, - 58) = (5882252574524729, - 58)"
  by (simp add: float_max_def float_le_def)

lemma float_of_int_49x49_w:
  "float_of_int 49 = Inr (6896136929411072, - 47)"
  by (simp add: float_of_int_def round_defs overflows_def)

lemma round_49x49_product_w:
  "round_ratio 40564819207303337610932270399488 40564819207303340847894502572032 = (9007199254740991, - 53)"
  by (simp add: round_defs)

lemma float_mul_49x49_w:
  "float_mul (6896136929411072, - 47) (5882252574524729, - 58) = Finite (9007199254740991, - 53)"
  by (simp add: float_mul_def round_49x49_product_w overflows_def)

lemma int_of_product_49x49_w:
  "int_of_product 49 (5882252574524729, - 58) = Inr 0"
  by (simp add: int_of_product_def bind_exn_def float_of_int_49x49_w float_mul_49x49_w int_of_float_def)

lemma scaled_size_49x49:
  "scaled_size 49 49 1 1 = Inr (0, 0)"
  by (simp add: scaled_size_def bind_exn_def truediv_49x49_w scale_49x49 int_of_product_49x49_w)

text \<open>Whenever \<open>fit_cover\<close> returns an image, the image has the size of the target box.\<close>

lemma fit_cover_size:
  "fit_cover img target_w target_h = Inr (Some r) \<Longrightarrow> width r = target_w \<and> height r = target_h"
  by (auto simp: fit_cover_def bind_exn_def resize_def crop_def Let_def
      split: option.splits if_splits sum.splits prod.splits)

text \<open>
  C6. For every valid bitmap and every target box \<open>(w, h)\<close> with \<open>w > 0\<close> and \<open>h > 0\<close>, the
  scaled dimensions satisfy \<open>scaledW \<ge> w\<close> and \<open>scaledH \<ge> h\<close>, with equality on one axis at
  least. The code does not keep this: for an image of 78 by 39 pixels and the box 360 by
  180, the quotient \<open>360 / 78\<close> is rounded down to the float \<open>4.615384615384615\<close>, the
  products \<open>78 * scale\<close> and \<open>39 * scale\<close> are the floats \<open>359.99999999999994\<close> and
  \<open>179.99999999999997\<close>, and \<open>int\<close> truncates them to 359 and 179: the scaled image is
  smaller than the box on both axes.
\<close>

theorem scaled_size_below_box:
  "scaled_size 78 39 360 180 = Inr (359, 179)"
  by (simp add: scaled_size_def bind_exn_def truediv_78x39_w truediv_78x39_h scale_78x39 int_of_product_78x39_w int_of_product_78x39_h)

text \<open>
  C3. For every valid bitmap and every target box \<open>(w, h)\<close> with \<open>w > 0\<close> and \<open>h > 0\<close>,
  \<open>fit_cover\<close> returns a bitmap of exactly \<open>w\<close> by \<open>h\<close> pixels. The code does not keep this:
  for an image of 49 by 49 pixels and the box 1 by 1, \<open>1 / 49\<close> is the float
  \<open>0.02040816326530612\<close>, \<open>49 * scale\<close> is the float \<open>0.9999999999999999\<close>, \<open>int\<close> truncates
  it to 0, and resizing to 0 by 0 pixels raises \<open>ValueError\<close>.
\<close>

theorem fit_cover_raises:
  "fit_cover (Some \<lparr>width = 49, height = 49\<rparr>) 1 1 = Inl ValueError"
  by (simp add: fit_cover_def scaled_size_49x49 bind_exn_def resize_def c_int_def)

text \<open>
  C8. For a degenerate input, that is no bitmap at all or a bitmap whose width or height
  is zero or negative, \<open>fit_cover\<close> returns \<open>None\<close> and raises nothing, whatever the target
  box.
\<close>

theorem fit_cover_degenerate:
  "fit_cover None target_w target_h = Inr None \<and>
   (width img \<le> 0 \<or> height img \<le> 0 \<longrightarrow> fit_cover (Some img) target_w target_h = Inr None)"
  by (simp add: fit_cover_def)

theorem fit_cover_degenerate_witness:
  "fit_cover None 360 180 = Inr None \<and>
   (width \<lparr>width = 0, height = 5\<rparr> \<le> 0 \<or> height \<lparr>width = 0, height = 5\<rparr> \<le> 0) \<and>
   fit_cover (Some \<lparr>width = 0, height = 5\<rparr>) 360 180 = Inr None"
  using fit_cover_degenerate [of 360 180 "\<lparr>width = 0, height = 5\<rparr>"] by simp

section \<open>Properties of the SVG recognition\<close>

lemma lower_Nil: "lower U [] = []"
  by (simp add: lower_def)

lemmas url_defs = urlparse_path_def split_scheme_def strip_params_def netloc_end_def
  scheme_char_def ascii_alpha_def ascii_lower_def uses_params_def Let_def

lemma path_example:
  "urlparse_path netloc_unchecked (ustr ''https://example.com/a.png?src=b.svg'') = Inr (ustr ''/a.png'')"
  by (simp add: url_defs ustr_Nil ustr_Cons)

lemma lower_url_example:
  "lower id (ustr ''https://example.com/a.png?src=b.svg'') = ustr ''https://example.com/a.png?src=b.svg''"
  by (simp add: lower_def ascii_lower_def ustr_Nil ustr_Cons)

lemma lower_ctype_example: "lower id (ustr ''image/png'') = ustr ''image/png''"
  by (simp add: lower_def ascii_lower_def ustr_Nil ustr_Cons)

lemma lower_path_example: "lower id (ustr ''/a.png'') = ustr ''/a.png''"
  by (simp add: lower_def ascii_lower_def ustr_Nil ustr_Cons)

lemma no_svg_in_ctype: "\<not> contains (ustr ''svg'') (ustr ''image/png'')"
  by (simp add: ustr_Nil ustr_Cons)

lemma url_ends_svg: "endswith (ustr ''https://example.com/a.png?src=b.svg'') (ustr ''.svg'')"
  by (simp add: endswith_def ustr_Nil ustr_Cons)

lemma path_not_svg: "\<not> endswith (ustr ''/a.png'') (ustr ''.svg'')"
  by (simp add: endswith_def ustr_Nil ustr_Cons)

text \<open>
  C5 as stated does not hold: \<open>_looks_like_svg\<close> also tests whether the whole URL ends in
  \<open>.svg\<close>. The URL \<open>https://example.com/a.png?src=b.svg\<close> with the content type
  \<open>image/png\<close> is classified as vector, although the content type does not contain \<open>svg\<close>
  and the path \<open>/a.png\<close> does not end in \<open>.svg\<close>.
\<close>

theorem query_svg_counterexample:
  "looks_like_svg id (urlparse_path netloc_unchecked)
     (ustr ''https://example.com/a.png?src=b.svg'') (Some (ustr ''image/png'')) \<and>
   \<not> spec_is_vector id (urlparse_path netloc_unchecked)
     (ustr ''https://example.com/a.png?src=b.svg'') (Some (ustr ''image/png''))"
  by (simp add: looks_like_svg_def spec_is_vector_def path_example lower_url_example
      lower_ctype_example lower_path_example no_svg_in_ctype url_ends_svg path_not_svg)

text \<open>
  C5, amended. For every URL and declared content type, the response is classified as
  vector if and only if the declared content type contains \<open>svg\<close>, or the path component of
  the URL ends in \<open>.svg\<close>, or the whole URL ends in \<open>.svg\<close>, each case-insensitively; in
  every other case it is classified as raster.
\<close>

theorem looks_like_svg_iff:
  "looks_like_svg U P url ct =
     (spec_is_vector U P url ct \<or> endswith (lower U url) (ustr ''.svg''))"
proof (cases ct)
  case None
  then show ?thesis
    by (auto simp: looks_like_svg_def spec_is_vector_def Let_def split: sum.splits)
next
  case (Some c)
  have "c = [] \<Longrightarrow> \<not> contains (ustr ''svg'') (lower U c)"
    by (simp add: lower_Nil ustr_Cons)
  with Some show ?thesis
    by (auto simp: looks_like_svg_def spec_is_vector_def Let_def split: sum.splits)
qed

theorem looks_like_svg_iff_witness:
  "looks_like_svg id (urlparse_path netloc_unchecked)
     (ustr ''https://example.com/a.png?src=b.svg'') (Some (ustr ''image/png'')) =
   (spec_is_vector id (urlparse_path netloc_unchecked)
      (ustr ''https://example.com/a.png?src=b.svg'') (Some (ustr ''image/png'')) \<or>
    endswith (lower id (ustr ''https://example.com/a.png?src=b.svg'')) (ustr ''.svg''))"
  using looks_like_svg_iff [of id "urlparse_path netloc_unchecked"
      "ustr ''https://example.com/a.png?src=b.svg''" "Some (ustr ''image/png'')"]
  by simp

section \<open>Properties of the image fetching\<close>

lemma fetch_svg_result:
  "cairosvg env = None \<or> (\<exists>f e. cairosvg env = Some f \<and> f data 1200 = Inl e) \<Longrightarrow>
     fst (fetch_svg env data) = Inr None \<and> \<not> list_ex is_image_open (snd (fetch_svg env data))"
  by (auto simp: fetch_svg_def is_image_open_def)

lemma strip_logo_url: "strip (ustr ''https://example.com/logo.svg'') = ustr ''https://example.com/logo.svg''"
  by (simp add: string_defs)

lemma strip_blank: "list_all is_space (ustr ''  '')"
  by (simp add: is_space_def ustr_Nil ustr_Cons)

lemma looks_like_svg_response:
  "looks_like_svg id P u (Some (ustr ''image/svg+xml''))"
  by (simp add: looks_like_svg_def lower_def ascii_lower_def ustr_Nil ustr_Cons)

text \<open>
  C4. For every URL and timeout, \<open>fetch_image\<close> returns a decoded bitmap or \<open>None\<close>; no
  exception reaches its caller, whatever the HTTP client, the rasterizer and the decoder
  raise (a failed transport, a timeout, an error status, an undecodable payload).
\<close>

theorem fetch_image_never_raises:
  "fst (fetch_image env url timeout) = Inr None \<or>
   (\<exists>img. fst (fetch_image env url timeout) = Inr (Some img))"
proof (cases "strip (or_empty url) = []")
  case True
  then show ?thesis by (simp add: fetch_image_def)
next
  case False
  obtain r evs where b: "fetch_body env (strip (or_empty url)) timeout = (r, evs)"
    by (cases "fetch_body env (strip (or_empty url)) timeout")
  show ?thesis
  proof (cases r)
    case (Inl e)
    with b False show ?thesis by (simp add: fetch_image_def)
  next
    case (Inr v)
    with b False have "fst (fetch_image env url timeout) = Inr v"
      by (simp add: fetch_image_def)
    then show ?thesis by (cases v) simp_all
  qed
qed

theorem fetch_image_never_raises_witness:
  "fst (fetch_image env_without_rasterizer (Some (ustr ''https://example.com/logo.svg'')) 10) =
     Inr None \<or>
   (\<exists>img. fst (fetch_image env_without_rasterizer
      (Some (ustr ''https://example.com/logo.svg'')) 10) = Inr (Some img))"
  using fetch_image_never_raises [of env_without_rasterizer
      "Some (ustr ''https://example.com/logo.svg'')" 10]
  by simp

text \<open>
  C7. When the fetched payload is classified as vector and no SVG rasterizer is
  available, or the rasterization raises, \<open>fetch_image\<close> returns \<open>None\<close> and never calls the
  image decoder: the vector bytes are not decoded as a raster image.
\<close>

theorem svg_without_rasterizer:
  assumes "strip (or_empty url) = u" and "u \<noteq> []"
    and "http_get env u timeout = Inr resp" and "raise_for_status resp = Inr ()"
    and "looks_like_svg (unicode_lower env) (url_path env) u
           (Some (or_empty (content_type_header resp)))"
    and "cairosvg env = None \<or>
         (\<exists>f e. cairosvg env = Some f \<and> f (content resp) 1200 = Inl e)"
  shows "fst (fetch_image env url timeout) = Inr None \<and>
         \<not> list_ex is_image_open (snd (fetch_image env url timeout))"
proof -
  from assms(6) have r: "fst (fetch_svg env (content resp)) = Inr None"
    and n: "\<not> list_ex is_image_open (snd (fetch_svg env (content resp)))"
    using fetch_svg_result [of env "content resp"] by simp_all
  obtain evs where f: "fetch_svg env (content resp) = (Inr None, evs)"
    using r by (cases "fetch_svg env (content resp)") simp
  with n have evs: "\<not> list_ex is_image_open evs" by simp
  have "fetch_body env u timeout = (Inr None, HttpGet u # evs)"
    using assms(3-5) f by (simp add: fetch_body_def Let_def)
  with assms(1,2) evs show ?thesis
    by (simp add: fetch_image_def Let_def is_image_open_def)
qed

theorem svg_without_rasterizer_witness:
  "fst (fetch_image env_without_rasterizer (Some (ustr ''https://example.com/logo.svg'')) 10) =
     Inr None \<and>
   \<not> list_ex is_image_open
     (snd (fetch_image env_without_rasterizer (Some (ustr ''https://example.com/logo.svg'')) 10))"
proof -
  have "strip (or_empty (Some (ustr ''https://example.com/logo.svg''))) =
      ustr ''https://example.com/logo.svg''"
    by (simp add: or_empty_def strip_logo_url)
  moreover have "ustr ''https://example.com/logo.svg'' \<noteq> []"
    by (simp add: ustr_Cons)
  moreover have "http_get env_without_rasterizer (ustr ''https://example.com/logo.svg'') 10 =
      Inr svg_response"
    by (simp add: env_without_rasterizer_def)
  moreover have "raise_for_status svg_response = Inr ()"
    by (simp add: raise_for_status_def svg_response_def)
  moreover have "looks_like_svg (unicode_lower env_without_rasterizer)
      (url_path env_without_rasterizer) (ustr ''https://example.com/logo.svg'')
      (Some (or_empty (content_type_header svg_response)))"
    by (simp add: env_without_rasterizer_def svg_response_def or_empty_def
        looks_like_svg_response)
  moreover have "cairosvg env_without_rasterizer = None \<or>
      (\<exists>f e. cairosvg env_without_rasterizer = Some f \<and> f (content svg_response) 1200 = Inl e)"
    by (simp add: env_without_rasterizer_def)
  ultimately show ?thesis
    by (rule svg_without_rasterizer)
qed

text \<open>
  C9. For a URL that is empty or consists of whitespace only, \<open>fetch_image\<close> returns
  \<open>None\<close> at once and makes no call to the outside, in particular no HTTP request.
\<close>

theorem fetch_image_blank_url:
  "list_all is_space (or_empty url) \<Longrightarrow>
     fetch_image env url timeout = (Inr None, []) \<and>
     \<not> list_ex is_http_get (snd (fetch_image env url timeout))"
  by (simp add: fetch_image_def strip_all_space)

theorem fetch_image_blank_url_witness:
  "list_all is_space (or_empty (Some (ustr ''  ''))) \<and>
   fetch_image env_without_rasterizer (Some (ustr ''  '')) 10 = (Inr None, []) \<and>
   \<not> list_ex is_http_get (snd (fetch_image env_without_rasterizer (Some (ustr ''  '')) 10))"
  using fetch_image_blank_url [of "Some (ustr ''  '')" env_without_rasterizer 10]
  by (simp add: or_empty_def strip_blank)

end
